theory Spec2Isabelle
  imports Main "HOL-Library.AList" "HOL-Library.Char_ord" "HOL-Library.List_Lexorder"
begin

text \<open>
  A model of the credential and account-resolution code of the Gmail MCP server:
  validation of account identifiers, the token manager with its write queue, the
  authorization listener, the mailbox cache and the search for the account of a message.
  Pure functions are HOL functions; code with effects passes its state explicitly;
  exceptions and rejected promises are values.
\<close>

section \<open>Account identifiers (src/auth/paths.ts)\<close>

text \<open>
  Errors are values. \<open>Error\<close> is a plain JavaScript \<open>Error\<close> with its message,
  \<open>SyntaxError\<close> is what \<open>JSON.parse\<close> throws, \<open>SysError\<close> is a Node system error,
  the only kind that carries a \<open>code\<close> property (\<open>ENOENT\<close>, \<open>EACCES\<close>, ...), and
  \<open>McpError\<close> is the protocol error of the tool handlers with its error code.
\<close>

datatype ErrorCode = InvalidRequest | InternalError

datatype error =
    Error string
  | SyntaxError
  | SysError string
  | McpError ErrorCode string


definition RESERVED_NAMES :: "string list" where
  "RESERVED_NAMES = [''.'', ''..'', ''con'', ''prn'', ''aux'', ''nul'', ''com1'', ''com2'',
     ''com3'', ''com4'', ''lpt1'', ''lpt2'', ''lpt3'']"

definition invalid_id_message :: string where
  "invalid_id_message =
     ''Invalid account ID. Must be 1-64 characters: lowercase letters, numbers, dashes, underscores only.''"

definition reserved_id_message :: "string \<Rightarrow> string" where
  "reserved_id_message accountId =
     ''Account ID \"'' @ accountId @ ''\" is reserved and cannot be used.''"

text \<open>The character class \<open>[a-z0-9_-]\<close> of the regular expression.\<close>

definition id_chars :: "char list" where
  "id_chars = ''abcdefghijklmnopqrstuvwxyz0123456789_-''"

text \<open>\<open>/^[a-z0-9_-]{1,64}$/.test(accountId)\<close>: the whole string, 1 to 64 characters of the class.\<close>

definition matches_id_regex :: "string \<Rightarrow> bool" where
  "matches_id_regex accountId \<longleftrightarrow>
     1 \<le> length accountId \<and> length accountId \<le> 64 \<and> list_all (\<lambda>c. c \<in> set id_chars) accountId"

definition validateAccountId :: "string \<Rightarrow> error + string" where
  "validateAccountId accountId =
     (if accountId = [] then Inl (Error invalid_id_message)
      else if accountId \<in> set RESERVED_NAMES then Inl (Error (reserved_id_message accountId))
      else if \<not> matches_id_regex accountId then Inl (Error invalid_id_message)
      else Inr accountId)"

text \<open>
  \<open>String.prototype.toLowerCase\<close> on the ASCII letters; every other character is kept
  (the characters of an identifier that validation accepts are ASCII).
\<close>

definition lower_char :: "char \<Rightarrow> char" where
  "lower_char c =
     (case map_of (zip ''ABCDEFGHIJKLMNOPQRSTUVWXYZ'' ''abcdefghijklmnopqrstuvwxyz'') c of
        Some d \<Rightarrow> d
      | None \<Rightarrow> c)"

definition toLowerCase :: "string \<Rightarrow> string" where
  "toLowerCase s = map lower_char s"

section \<open>Locating the account of a message (MailboxRegistry.findAccountForMessage)\<close>

text \<open>
  The accounts argument is a JavaScript \<open>Map\<close>: its entries in insertion order.
  The remote existence check \<open>gmail.users.messages.get\<close> (format \<open>minimal\<close>) is the
  parameter \<open>exists\<close>: it is \<open>True\<close> when the call returns and \<open>False\<close> when it throws.
  Beside its result the function returns the accounts it has probed, in order.
\<close>

fun probe_accounts ::
  "('c \<Rightarrow> string \<Rightarrow> bool) \<Rightarrow> string \<Rightarrow> (string \<times> 'c) list \<Rightarrow> (string \<times> 'c) option \<times> string list"
where
  "probe_accounts exists messageId [] = (None, [])"
| "probe_accounts exists messageId ((accountId, client) # rest) =
     (if exists client messageId then (Some (accountId, client), [accountId])
      else (fst (probe_accounts exists messageId rest),
            accountId # snd (probe_accounts exists messageId rest)))"

definition findAccountForMessage ::
  "('c \<Rightarrow> string \<Rightarrow> bool) \<Rightarrow> string \<Rightarrow> (string \<times> 'c) list \<Rightarrow> (string \<times> 'c) option \<times> string list"
where
  "findAccountForMessage exists messageId accounts =
     (if length accounts = 1 then
        (case accounts of
           entry # _ \<Rightarrow> (Some entry, [])
         | [] \<Rightarrow> probe_accounts exists messageId accounts)
      else probe_accounts exists messageId accounts)"


section \<open>Resolving the account of a tool call (BaseToolHandler.getClientForAccount)\<close>

text \<open>\<open>Array.prototype.join\<close> on strings.\<close>

fun join :: "string \<Rightarrow> string list \<Rightarrow> string" where
  "join sep [] = []"
| "join sep [x] = x"
| "join sep (x # y # ys) = x @ sep @ join sep (y # ys)"






section \<open>The mailbox cache (MailboxRegistry.getMailboxes)\<close>

text \<open>The fields of \<open>MailboxInfo\<close>, each under the prefix \<open>mailbox_\<close>.\<close>

record MailboxInfo =
  mailbox_accountId :: string
  mailbox_email :: string
  mailbox_messagesTotal :: "nat option"
  mailbox_threadsTotal :: "nat option"
  mailbox_historyId :: "string option"

text \<open>
  The registry holds the cache (key to data and fetch time) and the in-flight requests
  (key to pending promise). A pending promise is named by a number. \<open>fetchLog\<close> records
  every call of \<open>fetchMailboxes\<close>, which issues one \<open>getProfile\<close> request per account
  before its first \<open>await\<close>: entry \<open>p\<close> of the log lists the accounts requested for
  promise \<open>p\<close>.
\<close>

record registry =
  cache :: "(string \<times> (MailboxInfo list \<times> int)) list"
  inFlightRequests :: "(string \<times> nat) list"
  fetchLog :: "string list list"

definition CACHE_TTL :: int where
  "CACHE_TTL = 5 * 60 * 1000"

text \<open>
  \<open>Array.from(accounts.keys()).sort().join(',')\<close>; the default sort compares strings by
  their code units, which is the lexicographic order on character lists.
\<close>

definition cacheKey :: "(string \<times> 'c) list \<Rightarrow> string" where
  "cacheKey accounts = join '','' (sort (map fst accounts))"

text \<open>What a caller of \<open>getMailboxes\<close> receives: cached data, or a promise to await.\<close>

datatype lookup = Data "MailboxInfo list" | Awaits nat

text \<open>
  The part of \<open>getMailboxes\<close> that runs before its first \<open>await\<close>, as one step;
  \<open>now\<close> is \<open>Date.now()\<close>.
\<close>

definition fetchMailboxes_start :: "(string \<times> 'c) list \<Rightarrow> registry \<Rightarrow> nat \<times> registry" where
  "fetchMailboxes_start accounts r =
     (length (fetchLog r), r\<lparr>fetchLog := fetchLog r @ [map fst accounts]\<rparr>)"

definition getMailboxes :: "(string \<times> 'c) list \<Rightarrow> int \<Rightarrow> registry \<Rightarrow> lookup \<times> registry" where
  "getMailboxes accounts now r =
     (let key = cacheKey accounts;
          fetch =
            (let (requestPromise, r') = fetchMailboxes_start accounts r
             in (Awaits requestPromise,
                 r'\<lparr>inFlightRequests := AList.update key requestPromise (inFlightRequests r')\<rparr>))
      in case map_of (inFlightRequests r) key of
           Some inFlight \<Rightarrow> (Awaits inFlight, r)
         | None \<Rightarrow>
             (case map_of (cache r) key of
                Some (data, timestamp) \<Rightarrow>
                  if now - timestamp < CACHE_TTL then (Data data, r) else fetch
              | None \<Rightarrow> fetch))"

text \<open>
  The two continuations that run when the remote requests have settled: the end of
  \<open>fetchMailboxes\<close> stores the result in the cache, and the \<open>finally\<close> block of
  \<open>getMailboxes\<close> removes the in-flight entry.
\<close>

definition fetchMailboxes_finish ::
  "string \<Rightarrow> MailboxInfo list \<Rightarrow> int \<Rightarrow> registry \<Rightarrow> registry"
where
  "fetchMailboxes_finish key mailboxes now r =
     r\<lparr>cache := AList.update key (mailboxes, now) (cache r)\<rparr>"

definition getMailboxes_finally :: "string \<Rightarrow> registry \<Rightarrow> registry" where
  "getMailboxes_finally key r = r\<lparr>inFlightRequests := AList.delete key (inFlightRequests r)\<rparr>"

section \<open>The interactive authorization listener (AuthServer.startForMcpTool)\<close>

text \<open>Decimal digits of a number, as template strings print it.\<close>

fun show_nat :: "nat \<Rightarrow> string" where
  "show_nat n =
     (if n < 10 then [''0123456789'' ! n]
      else show_nat (n div 10) @ [''0123456789'' ! (n mod 10)])"

record OAuthCredentials =
  client_id :: string
  client_secret :: string

text \<open>
  The callback server: the \<open>http.Server\<close> object with what its request handler closes
  over. The timer is kept by its delay in milliseconds.
\<close>

record CallbackServer =
  listenPort :: nat
  authClient :: "OAuthCredentials \<times> string"
  targetAccount :: string

record AuthServer =
  server :: "CallbackServer option"
  authTimeout :: "nat option"
  port :: nat

record AuthStartResult =
  success :: bool
  authUrl :: "string option"
  callbackUrl :: "string option"
  error :: "string option"

text \<open>
  What the surroundings answer during one call: \<open>loadCredentials()\<close> returns the client
  credentials or throws an \<open>Error\<close> with a message, \<open>generateAuthUrl\<close> of the client
  library builds the URL, and \<open>listen\<close> either succeeds or emits an error event, whose
  message the \<open>error\<close> handler has already put into the rejection (the text for
  \<open>EADDRINUSE\<close>, or the error's own).
\<close>

record AuthEnv =
  loadCredentials :: "string + OAuthCredentials"
  generateAuthUrl :: "OAuthCredentials \<times> string \<Rightarrow> string"
  listenError :: "string option"

definition already_running_message :: string where
  "already_running_message =
     ''Authentication server is already running. Please complete the current authentication or wait for it to timeout.''"

text \<open>
  \<open>startCallbackServer\<close>: the executor of the promise assigns \<open>this.server\<close> and
  \<open>this.authTimeout\<close> whether or not the port can be bound; the promise is rejected when
  binding fails.
\<close>

definition startCallbackServer ::
  "AuthEnv \<Rightarrow> OAuthCredentials \<times> string \<Rightarrow> string \<Rightarrow> AuthServer \<Rightarrow> string option \<times> AuthServer"
where
  "startCallbackServer env client accountId s =
     (listenError env,
      s\<lparr>server := Some \<lparr>listenPort = port s, authClient = client, targetAccount = accountId\<rparr>,
        authTimeout := Some (5 * 60 * 1000)\<rparr>)"

definition startForMcpTool :: "string \<Rightarrow> AuthEnv \<Rightarrow> AuthServer \<Rightarrow> AuthStartResult \<times> AuthServer" where
  "startForMcpTool accountId env s =
     (if server s \<noteq> None then
        (\<lparr>success = False, authUrl = None, callbackUrl = None,
          error = Some already_running_message\<rparr>, s)
      else
        (case loadCredentials env of
           Inl message \<Rightarrow>
             (\<lparr>success = False, authUrl = None, callbackUrl = None, error = Some message\<rparr>, s)
         | Inr credentials \<Rightarrow>
             (let url = ''http://localhost:'' @ show_nat (port s) @ ''/oauth2callback'';
                  client = (credentials, url);
                  link = generateAuthUrl env client
              in case startCallbackServer env client accountId s of
                   (None, s') \<Rightarrow>
                     (\<lparr>success = True, authUrl = Some link, callbackUrl = Some url,
                       error = None\<rparr>, s')
                 | (Some message, s') \<Rightarrow>
                     (\<lparr>success = False, authUrl = None, callbackUrl = None,
                       error = Some message\<rparr>, s'))))"

section \<open>JSON values and JavaScript objects\<close>

text \<open>
  The token file holds JSON. An object is the list of its own properties in insertion
  order; numbers are integers (token expiry dates are milliseconds). A property read is a
  read of an own property: \<open>None\<close> is JavaScript's \<open>undefined\<close>. What a parsed object
  inherits from \<open>Object.prototype\<close> is modelled where \<open>removeAccount\<close> tests for the
  account under the key its caller gives (\<open>truthy_member\<close> below).
\<close>

datatype json =
    JNull
  | JBool bool
  | JNum int
  | JStr string
  | JArr "json list"
  | JObj "(string \<times> json) list"

type_synonym object = "(string \<times> json) list"

text \<open>Truthiness, as \<open>if (x)\<close>, \<open>!x\<close> and \<open>x || y\<close> test it.\<close>

fun truthy :: "json option \<Rightarrow> bool" where
  "truthy None = False"
| "truthy (Some JNull) = False"
| "truthy (Some (JBool b)) = b"
| "truthy (Some (JNum n)) = (n \<noteq> 0)"
| "truthy (Some (JStr s)) = (s \<noteq> [])"
| "truthy (Some (JArr xs)) = True"
| "truthy (Some (JObj kvs)) = True"

definition or_js :: "json option \<Rightarrow> json option \<Rightarrow> json option" where
  "or_js a b = (if truthy a then a else b)"

text \<open>
  \<open>!obj[name]\<close> for an object that \<open>JSON.parse\<close> has made and a name that the caller
  chooses: the read goes through the prototype chain. An own property decides by its
  value; where there is none, the names of \<open>Object.prototype\<close> yield a function or the
  prototype object itself, which are truthy, and every other name yields \<open>undefined\<close>.
\<close>

definition Object_prototype_names :: "string list" where
  "Object_prototype_names = [''constructor'', ''__defineGetter__'', ''__defineSetter__'',
     ''hasOwnProperty'', ''__lookupGetter__'', ''__lookupSetter__'', ''isPrototypeOf'',
     ''propertyIsEnumerable'', ''toString'', ''valueOf'', ''__proto__'', ''toLocaleString'']"

definition truthy_member :: "object \<Rightarrow> string \<Rightarrow> bool" where
  "truthy_member obj name =
     (case map_of obj name of
        Some v \<Rightarrow> truthy (Some v)
      | None \<Rightarrow> name \<in> set Object_prototype_names)"

text \<open>\<open>x.name\<close> for a name that is no index and no built-in property: objects only have it.\<close>

fun read_prop :: "json \<Rightarrow> string \<Rightarrow> json option" where
  "read_prop (JObj kvs) name = map_of kvs name"
| "read_prop _ name = None"

text \<open>\<open>typeof x === 'object'\<close> for a truthy \<open>x\<close>.\<close>

fun is_object :: "json \<Rightarrow> bool" where
  "is_object (JObj kvs) = True"
| "is_object (JArr xs) = True"
| "is_object _ = False"

text \<open>
  The own enumerable properties that a spread \<open>{...x}\<close> copies: the properties of an
  object, the indexed elements of an array or of a string, nothing for the rest.
\<close>

fun own_props :: "json \<Rightarrow> object" where
  "own_props (JObj kvs) = kvs"
| "own_props (JArr xs) = zip (map show_nat [0..<length xs]) xs"
| "own_props (JStr s) = zip (map show_nat [0..<length s]) (map (\<lambda>c. JStr [c]) s)"
| "own_props _ = []"

text \<open>
  Assigning properties one after the other: an existing key keeps its place, a new key
  goes to the end. \<open>{...a, ...b}\<close> is \<open>assign_all (assign_all [] a) b\<close>.
\<close>

definition assign_all :: "object \<Rightarrow> object \<Rightarrow> object" where
  "assign_all target source = foldl (\<lambda>acc (k, v). AList.update k v acc) target source"

text \<open>
  A property set to a value that may be \<open>undefined\<close>, as the file will show it:
  \<open>JSON.stringify\<close> leaves out a property whose value is \<open>undefined\<close>.
\<close>

definition set_prop :: "string \<Rightarrow> json option \<Rightarrow> object \<Rightarrow> object" where
  "set_prop name v obj = (case v of None \<Rightarrow> AList.delete name obj | Some x \<Rightarrow> AList.update name x obj)"

section \<open>The token manager's state and promises (src/auth/tokenManager.ts)\<close>

text \<open>
  A file is absent, or present with content that cannot be read (the system error code
  says why), or present with text that \<open>JSON.parse\<close> rejects, or present with a JSON
  object. The model follows the declared type \<open>MultiAccountTokens\<close> in that a parsed token
  file is an object; what each of its properties holds is any JSON value. Writing a file
  that can be read succeeds, with \<open>JSON.stringify\<close> and \<open>JSON.parse\<close> inverse to each
  other, and the directory can be created.
\<close>

datatype file_state = Absent | Unreadable string | Unparseable | Parsed object

datatype fs_event = WriteFile object | Unlink

text \<open>
  The state: the file at the token path, the file at the legacy path, every write and
  unlink of the token path in order, and the fields \<open>accountMode\<close>,
  \<open>oauth2Client.credentials\<close> and \<open>accounts\<close> (each client by its credentials).
  Output to \<open>stderr\<close> is not modelled.
\<close>

record tm =
  tokenFile :: file_state
  legacyFile :: file_state
  fsLog :: "fs_event list"
  accountMode :: string
  credentials :: json
  accounts :: "(string \<times> json) list"

text \<open>
  An asynchronous computation is a function of the state in which it starts. It is
  fulfilled with a value, or rejected with an error, or it never settles; each time the
  state it has reached is kept.
\<close>

datatype 'a outcome = Fulfilled 'a tm | Rejected error tm | Pending tm

type_synonym 'a promise = "tm \<Rightarrow> 'a outcome"

fun state_of :: "'a outcome \<Rightarrow> tm" where
  "state_of (Fulfilled v s) = s"
| "state_of (Rejected e s) = s"
| "state_of (Pending s) = s"

definition resolve :: "'a \<Rightarrow> 'a promise" where
  "resolve v = (\<lambda>s. Fulfilled v s)"

definition reject :: "error \<Rightarrow> 'a promise" where
  "reject e = (\<lambda>s. Rejected e s)"

text \<open>
  \<open>p.then(f)\<close> and \<open>await\<close>: \<open>f\<close> starts in the state in which \<open>p\<close> was fulfilled;
  a rejection passes through. \<open>p.catch(h)\<close> and \<open>try ... catch\<close>: \<open>h\<close> starts in
  the state in which \<open>p\<close> was rejected.
\<close>

definition then_p :: "'a promise \<Rightarrow> ('a \<Rightarrow> 'b promise) \<Rightarrow> 'b promise" where
  "then_p p f =
     (\<lambda>s. case p s of
            Fulfilled v s' \<Rightarrow> f v s'
          | Rejected e s' \<Rightarrow> Rejected e s'
          | Pending s' \<Rightarrow> Pending s')"

definition catch_p :: "'a promise \<Rightarrow> (error \<Rightarrow> 'a promise) \<Rightarrow> 'a promise" where
  "catch_p p h =
     (\<lambda>s. case p s of
            Fulfilled v s' \<Rightarrow> Fulfilled v s'
          | Rejected e s' \<Rightarrow> h e s'
          | Pending s' \<Rightarrow> Pending s')"

subsection \<open>The write queue\<close>

text \<open>
  \<open>enqueueTokenWrite\<close> takes the field \<open>this.writeQueue\<close> as an argument and returns
  the promise it hands to its caller together with the new value of the field. The
  field starts as \<open>Promise.resolve()\<close>. A value of the field stands for the writes that
  are still pending in the chain. The methods below take the field as an argument too
  and return the promise that their caller awaits.
\<close>

definition enqueueTokenWrite :: "unit promise \<Rightarrow> unit promise \<Rightarrow> unit promise \<times> unit promise" where
  "enqueueTokenWrite operation writeQueue =
     (let pendingWrite = then_p (catch_p writeQueue (\<lambda>_. resolve ())) (\<lambda>_. operation);
          writeQueue' = catch_p (catch_p pendingWrite (\<lambda>error. reject error)) (\<lambda>_. resolve ())
      in (pendingWrite, writeQueue'))"

text \<open>Requests enqueued one after the other, before any of them has run.\<close>

fun enqueue_all :: "unit promise list \<Rightarrow> unit promise \<Rightarrow> unit promise list \<times> unit promise" where
  "enqueue_all [] writeQueue = ([], writeQueue)"
| "enqueue_all (operation # rest) writeQueue =
     (fst (enqueueTokenWrite operation writeQueue) #
        fst (enqueue_all rest (snd (enqueueTokenWrite operation writeQueue))),
      snd (enqueue_all rest (snd (enqueueTokenWrite operation writeQueue))))"

text \<open>
  The order the specification asks for, in its own words: the operations run one at a
  time in the order given, each from the state its predecessor has left, and an
  operation that fails is followed by the next all the same.
\<close>

fun run_in_order :: "unit promise list \<Rightarrow> unit promise" where
  "run_in_order [] = resolve ()"
| "run_in_order (operation # rest) =
     (\<lambda>s. case operation s of
            Fulfilled v s' \<Rightarrow> run_in_order rest s'
          | Rejected e s' \<Rightarrow> run_in_order rest s'
          | Pending s' \<Rightarrow> Pending s')"

text \<open>
  Code that runs inside a queued operation sees in \<open>this.writeQueue\<close> a promise derived
  from the operation's own \<open>pendingWrite\<close>: it settles only after the operation has, so
  to the operation itself, which would have to wait for it, it never settles.
\<close>

definition own_chain :: "unit promise" where
  "own_chain = (\<lambda>s. Pending s)"

subsection \<open>File access\<close>

text \<open>\<open>JSON.parse(await fs.readFile(this.tokenPath, 'utf-8'))\<close>.\<close>

definition readTokenFile :: "object promise" where
  "readTokenFile =
     (\<lambda>s. case tokenFile s of
            Absent \<Rightarrow> Rejected (SysError ''ENOENT'') s
          | Unreadable code \<Rightarrow> Rejected (SysError code) s
          | Unparseable \<Rightarrow> Rejected SyntaxError s
          | Parsed parsed \<Rightarrow> Fulfilled parsed s)"

text \<open>\<open>ensureTokenDirectoryExists\<close> followed by \<open>fs.writeFile\<close> of the stringified object.\<close>

definition writeTokenFile :: "object \<Rightarrow> unit promise" where
  "writeTokenFile tokens =
     (\<lambda>s. Fulfilled () (s\<lparr>tokenFile := Parsed tokens, fsLog := fsLog s @ [WriteFile tokens]\<rparr>))"

definition unlinkTokenFile :: "unit promise" where
  "unlinkTokenFile =
     (\<lambda>s. if tokenFile s = Absent then Rejected (SysError ''ENOENT'') s
          else Fulfilled () (s\<lparr>tokenFile := Absent, fsLog := fsLog s @ [Unlink]\<rparr>))"

text \<open>\<open>error instanceof Error && 'code' in error && error.code === 'ENOENT'\<close>.\<close>

fun is_ENOENT :: "error \<Rightarrow> bool" where
  "is_ENOENT (SysError code) = (code = ''ENOENT'')"
| "is_ENOENT _ = False"

text \<open>\<open>error instanceof Error && 'code' in error && error.code !== 'ENOENT'\<close>.\<close>

fun has_other_code :: "error \<Rightarrow> bool" where
  "has_other_code (SysError code) = (code \<noteq> ''ENOENT'')"
| "has_other_code _ = False"

subsection \<open>Loading and saving\<close>

definition saveMultiAccountTokens :: "unit promise \<Rightarrow> object \<Rightarrow> unit promise" where
  "saveMultiAccountTokens writeQueue multiAccountTokens =
     fst (enqueueTokenWrite (writeTokenFile multiAccountTokens) writeQueue)"

text \<open>The test for the old single-account format: \<open>parsed.access_token || parsed.refresh_token\<close>.\<close>

definition old_format :: "object \<Rightarrow> bool" where
  "old_format parsed \<longleftrightarrow>
     truthy (or_js (map_of parsed ''access_token'') (map_of parsed ''refresh_token''))"

definition loadMultiAccountTokens :: "unit promise \<Rightarrow> object promise" where
  "loadMultiAccountTokens writeQueue =
     catch_p
       (then_p readTokenFile
          (\<lambda>parsed.
             if old_format parsed then
               (let multiAccountTokens = [(''normal'', JObj parsed)]
                in then_p (saveMultiAccountTokens writeQueue multiAccountTokens)
                     (\<lambda>_. resolve multiAccountTokens))
             else resolve parsed))
       (\<lambda>error. if is_ENOENT error then resolve [] else reject error)"

definition loadMultiAccountTokensRaw :: "object promise" where
  "loadMultiAccountTokensRaw =
     catch_p readTokenFile (\<lambda>error. if is_ENOENT error then resolve [] else reject error)"

subsection \<open>The refresh listener, saveTokens, removeAccount\<close>

text \<open>
  The handler that \<open>setupTokenRefreshForAccount\<close> registers for the \<open>tokens\<close> event,
  called with the new tokens. Its \<open>catch\<close> block only reports the error.
\<close>

definition tokens_listener_operation :: "string \<Rightarrow> object \<Rightarrow> unit promise" where
  "tokens_listener_operation accountId newTokens =
     then_p (loadMultiAccountTokens own_chain)
       (\<lambda>multiAccountTokens.
          let currentTokens =
                (case or_js (map_of multiAccountTokens accountId) (Some (JObj [])) of
                   Some v \<Rightarrow> v
                 | None \<Rightarrow> JObj []);
              updatedTokens =
                set_prop ''refresh_token''
                  (or_js (map_of newTokens ''refresh_token'') (read_prop currentTokens ''refresh_token''))
                  (assign_all (assign_all [] (own_props currentTokens)) newTokens)
          in writeTokenFile (AList.update accountId (JObj updatedTokens) multiAccountTokens))"

definition tokens_listener :: "string \<Rightarrow> object \<Rightarrow> unit promise \<Rightarrow> unit promise" where
  "tokens_listener accountId newTokens writeQueue =
     catch_p (fst (enqueueTokenWrite (tokens_listener_operation accountId newTokens) writeQueue))
       (\<lambda>error. resolve ())"

text \<open>\<open>email\<close> has type \<open>string | undefined\<close>; \<open>if (email)\<close> fails for the empty string too.\<close>

definition saveTokens_operation :: "object \<Rightarrow> string option \<Rightarrow> unit promise" where
  "saveTokens_operation tokens email =
     then_p (loadMultiAccountTokens own_chain)
       (\<lambda>multiAccountTokens s.
          let cachedTokens = assign_all [] tokens;
              cachedTokens' =
                (if email \<noteq> None \<and> email \<noteq> Some []
                 then AList.update ''cached_email'' (JStr (the email)) cachedTokens
                 else cachedTokens)
          in writeTokenFile (AList.update (accountMode s) (JObj cachedTokens') multiAccountTokens) s)"

definition saveTokens :: "object \<Rightarrow> string option \<Rightarrow> unit promise \<Rightarrow> unit promise" where
  "saveTokens tokens email writeQueue =
     catch_p
       (then_p (fst (enqueueTokenWrite (saveTokens_operation tokens email) writeQueue))
          (\<lambda>_ s. Fulfilled () (s\<lparr>credentials := JObj tokens\<rparr>)))
       (\<lambda>error. reject error)"

definition account_missing_message :: "string \<Rightarrow> string" where
  "account_missing_message normalizedId = ''Account \"'' @ normalizedId @ ''\" not found''"

definition removeAccount_operation :: "string \<Rightarrow> unit promise" where
  "removeAccount_operation normalizedId =
     then_p (loadMultiAccountTokens own_chain)
       (\<lambda>multiAccountTokens.
          if \<not> truthy_member multiAccountTokens normalizedId
          then reject (Error (account_missing_message normalizedId))
          else
            (let remaining = AList.delete normalizedId multiAccountTokens
             in then_p
                  (if length (map fst remaining) = 0 then unlinkTokenFile
                   else writeTokenFile remaining)
                  (\<lambda>_ s. Fulfilled () (s\<lparr>accounts := AList.delete normalizedId (accounts s)\<rparr>))))"

definition removeAccount :: "string \<Rightarrow> unit promise \<Rightarrow> unit promise" where
  "removeAccount accountId writeQueue =
     (let normalizedId = toLowerCase accountId
      in fst (enqueueTokenWrite (removeAccount_operation normalizedId) writeQueue))"

subsection \<open>loadSavedTokens and the legacy location\<close>

text \<open>
  \<open>migrateLegacyTokens\<close> writes the token path directly, not through the queue, and
  turns every error into the answer \<open>false\<close>. A parsed legacy file is an object here, so
  the guard against a non-object never fires.
\<close>

definition migrateLegacyTokens :: "bool promise" where
  "migrateLegacyTokens =
     (\<lambda>s. case legacyFile s of
            Absent \<Rightarrow> Fulfilled False s
          | Unreadable code \<Rightarrow> Fulfilled False s
          | Unparseable \<Rightarrow> Fulfilled False s
          | Parsed legacyTokens \<Rightarrow>
              (let tokensToSave =
                     (if old_format legacyTokens then [(''normal'', JObj legacyTokens)]
                      else legacyTokens)
               in then_p (writeTokenFile tokensToSave) (\<lambda>_. resolve True) s))"

definition loadSavedTokens :: "unit promise \<Rightarrow> bool promise" where
  "loadSavedTokens writeQueue =
     catch_p
       (then_p
          (\<lambda>s. if tokenFile s \<noteq> Absent then Fulfilled True s else migrateLegacyTokens s)
          (\<lambda>found.
             if \<not> found then resolve False
             else
               then_p (loadMultiAccountTokens writeQueue)
                 (\<lambda>multiAccountTokens s.
                    case map_of multiAccountTokens (accountMode s) of
                      None \<Rightarrow> Fulfilled False s
                    | Some tokens \<Rightarrow>
                        if \<not> truthy (Some tokens) \<or> \<not> is_object tokens then Fulfilled False s
                        else Fulfilled True (s\<lparr>credentials := tokens\<rparr>))))
       (\<lambda>error.
          if has_other_code error
          then then_p (catch_p unlinkTokenFile (\<lambda>_. resolve ())) (\<lambda>_. resolve False)
          else resolve False)"



section \<open>Notions of the specification and example states\<close>



text \<open>The refresh token that the token file holds for an account, if any.\<close>

definition stored_refresh_token :: "file_state \<Rightarrow> string \<Rightarrow> json option" where
  "stored_refresh_token f accountId =
     (case f of
        Parsed multiAccountTokens \<Rightarrow>
          (case map_of multiAccountTokens accountId of
             Some tokens \<Rightarrow> read_prop tokens ''refresh_token''
           | None \<Rightarrow> None)
      | _ \<Rightarrow> None)"

text \<open>A queue value that is never rejected, as every value of \<open>this.writeQueue\<close> is.\<close>

definition never_rejects :: "unit promise \<Rightarrow> bool" where
  "never_rejects q \<longleftrightarrow> (\<forall>s e s'. q s \<noteq> Rejected e s')"

text \<open>
  Example states: a store with one account, a store with two, a token file in the old
  single-account format, a token file that is not JSON, and no token file at all.
\<close>

definition one_account_store :: tm where
  "one_account_store =
     \<lparr>tokenFile = Parsed [(''normal'',
          JObj [(''access_token'', JStr ''a1''), (''refresh_token'', JStr ''r1'')])],
      legacyFile = Absent, fsLog = [], accountMode = ''normal'', credentials = JObj [],
      accounts = []\<rparr>"

definition two_account_store :: tm where
  "two_account_store =
     \<lparr>tokenFile = Parsed [(''work'', JObj [(''access_token'', JStr ''a1'')]),
                          (''home'', JObj [(''access_token'', JStr ''a2'')])],
      legacyFile = Absent, fsLog = [], accountMode = ''work'', credentials = JObj [],
      accounts = [(''work'', JObj [(''access_token'', JStr ''a1'')]),
                  (''home'', JObj [(''access_token'', JStr ''a2'')])]\<rparr>"

definition old_format_store :: tm where
  "old_format_store =
     \<lparr>tokenFile = Parsed [(''access_token'', JStr ''a1''), (''refresh_token'', JStr ''r1'')],
      legacyFile = Absent, fsLog = [], accountMode = ''normal'', credentials = JObj [],
      accounts = []\<rparr>"

definition corrupt_store :: tm where
  "corrupt_store =
     \<lparr>tokenFile = Unparseable, legacyFile = Absent, fsLog = [], accountMode = ''normal'',
      credentials = JObj [], accounts = []\<rparr>"

definition no_store :: tm where
  "no_store =
     \<lparr>tokenFile = Absent, legacyFile = Absent, fsLog = [], accountMode = ''normal'',
      credentials = JObj [], accounts = []\<rparr>"

text \<open>
  The mailboxes of the specification's example: each client is named by its mailbox,
  and mailbox A holds the message 42, mailbox B does not.
\<close>

definition example_mailboxes :: "string \<Rightarrow> string \<Rightarrow> bool" where
  "example_mailboxes client messageId \<longleftrightarrow> client = ''A'' \<and> messageId = ''42''"

text \<open>An authorization session that is active, and surroundings that would let one start.\<close>

definition active_session :: AuthServer where
  "active_session =
     \<lparr>server = Some \<lparr>listenPort = 3000,
         authClient = (\<lparr>client_id = ''id'', client_secret = ''secret''\<rparr>,
                       ''http://localhost:3000/oauth2callback''),
         targetAccount = ''work''\<rparr>,
      authTimeout = Some (5 * 60 * 1000), port = 3000\<rparr>"

definition example_env :: AuthEnv where
  "example_env =
     \<lparr>loadCredentials = Inr \<lparr>client_id = ''id'', client_secret = ''secret''\<rparr>,
      generateAuthUrl = (\<lambda>client. ''https://accounts.google.com/o/oauth2/v2/auth''),
      listenError = None\<rparr>"

definition empty_registry :: registry where
  "empty_registry = \<lparr>cache = [], inFlightRequests = [], fetchLog = []\<rparr>"

section \<open>Properties of findAccountForMessage\<close>

lemma probe_accounts_result:
  "fst (probe_accounts exists messageId accts) =
     find (\<lambda>(acct, client). exists client messageId) accts"
  by (induction accts) (auto split: prod.splits)

lemma probe_accounts_all_probed:
  "fst (probe_accounts exists messageId accts) = None \<Longrightarrow>
     snd (probe_accounts exists messageId accts) = map fst accts"
  by (induction accts) (auto split: if_splits)

lemma probe_accounts_log:
  "snd (probe_accounts exists messageId accts) =
     map fst (takeWhile (\<lambda>(acct, client). \<not> exists client messageId) accts) @
     (case fst (probe_accounts exists messageId accts) of
        None \<Rightarrow> []
      | Some (acct, client) \<Rightarrow> [acct])"
  by (induction accts) (auto split: option.splits)

text \<open>
  C10. A map with exactly one account: that account is returned, whatever the message id
  and whatever the existence check would say, and no account is probed. In particular the
  result is never not-found.
\<close>

theorem findAccountForMessage_single_account:
  "findAccountForMessage exists messageId [(acct, client)] = (Some (acct, client), [])"
  by (simp add: findAccountForMessage_def)

text \<open>
  C6 as stated, for every map of candidate accounts, fails on a map with one account:
  mailbox B does not hold message 42, yet the account of B is returned, without a probe,
  where the sequential search answers not-found after probing it.
\<close>

theorem lone_account_returned_unprobed:
  "\<not> example_mailboxes ''B'' ''42'' \<and>
   findAccountForMessage example_mailboxes ''42'' [(''b'', ''B'')] = (Some (''b'', ''B''), []) \<and>
   probe_accounts example_mailboxes ''42'' [(''b'', ''B'')] = (None, [''b''])"
  by (simp add: findAccountForMessage_def example_mailboxes_def)

text \<open>
  C6, amended: for every message id and every map that does not hold exactly one
  account, the accounts are probed one after the other in the map's order; the result is
  the first account whose existence check succeeds, the accounts probed are exactly those
  before it and itself, and the result is not-found only when every account of the map
  has been probed without success.
\<close>

theorem findAccountForMessage_probes_in_order:
  assumes "length accts \<noteq> 1"
  shows "fst (findAccountForMessage exists messageId accts) =
           find (\<lambda>(acct, client). exists client messageId) accts \<and>
         snd (findAccountForMessage exists messageId accts) =
           map fst (takeWhile (\<lambda>(acct, client). \<not> exists client messageId) accts) @
           (case find (\<lambda>(acct, client). exists client messageId) accts of
              None \<Rightarrow> []
            | Some (acct, client) \<Rightarrow> [acct]) \<and>
         (fst (findAccountForMessage exists messageId accts) = None \<longrightarrow>
            snd (findAccountForMessage exists messageId accts) = map fst accts)"
proof -
  have same: "findAccountForMessage exists messageId accts = probe_accounts exists messageId accts"
    using assms by (simp add: findAccountForMessage_def)
  show ?thesis
    unfolding same
    using probe_accounts_log [of exists messageId accts]
      probe_accounts_all_probed [of exists messageId accts]
    by (simp add: probe_accounts_result)
qed

text \<open>
  The specification's example: B is probed first and lacks the message, A is probed next
  and has it; with no mailbox holding the message both are probed before not-found.
\<close>

theorem findAccountForMessage_probes_in_order_witness:
  "length [(''b'', ''B''), (''a'', ''A'')] \<noteq> 1 \<and>
   findAccountForMessage example_mailboxes ''42'' [(''b'', ''B''), (''a'', ''A'')] =
     (Some (''a'', ''A''), [''b'', ''a'']) \<and>
   findAccountForMessage example_mailboxes ''43'' [(''b'', ''B''), (''a'', ''A'')] =
     (None, [''b'', ''a''])"
proof -
  have n: "length [(''b'', ''B''), (''a'', ''A'')] \<noteq> 1" by simp
  have "findAccountForMessage example_mailboxes ''42'' [(''b'', ''B''), (''a'', ''A'')] =
     (Some (''a'', ''A''), [''b'', ''a''])"
    using findAccountForMessage_probes_in_order [OF n, of example_mailboxes "''42''"]
    by (simp add: prod_eq_iff example_mailboxes_def)
  moreover
  have "findAccountForMessage example_mailboxes ''43'' [(''b'', ''B''), (''a'', ''A'')] =
     (None, [''b'', ''a''])"
    using findAccountForMessage_probes_in_order [OF n, of example_mailboxes "''43''"]
    by (simp add: prod_eq_iff example_mailboxes_def)
  ultimately show ?thesis using n by blast
qed

section \<open>Properties of account-id validation\<close>





section \<open>Properties of the mailbox cache\<close>

lemma cacheKey_same_set:
  assumes "set (map fst a1) = set (map fst a2)" "distinct (map fst a1)" "distinct (map fst a2)"
  shows "cacheKey a1 = cacheKey a2"
proof -
  have "sort (map fst a1) = sort (map fst a2)"
    by (rule sorted_distinct_set_unique) (use assms in simp_all)
  then show ?thesis by (simp add: cacheKey_def)
qed

lemma cacheKey_example: "cacheKey [(''b'', ()), (''a'', ())] = ''a,b''"
  by code_simp

text \<open>
  C7. Two lookups for the same set of accounts (two maps with the same keys, in any
  order), the second made while the first is still waiting for its promise \<open>p\<close>: the
  second lookup receives the same promise \<open>p\<close> and leaves the registry as it is, so it
  issues no remote request. Over both lookups the log of remote fetches grows by exactly
  one fetch when no request for the key was in flight before the first lookup, and by
  none when one was (the first lookup then joined it).
\<close>

theorem getMailboxes_shares_in_flight_request:
  assumes keys: "set (map fst a1) = set (map fst a2)"
      "distinct (map fst a1)" "distinct (map fst a2)"
    and first: "getMailboxes a1 t1 r = (Awaits p, r1)"
  shows "getMailboxes a2 t2 r1 = (Awaits p, r1) \<and>
         fetchLog r1 =
           (if map_of (inFlightRequests r) (cacheKey a1) = None
            then fetchLog r @ [map fst a1] else fetchLog r)"
proof -
  have k: "cacheKey a2 = cacheKey a1"
    using cacheKey_same_set [OF keys] by simp
  from first have "map_of (inFlightRequests r1) (cacheKey a1) = Some p \<and>
         fetchLog r1 =
           (if map_of (inFlightRequests r) (cacheKey a1) = None
            then fetchLog r @ [map fst a1] else fetchLog r)"
    by (auto simp: getMailboxes_def fetchMailboxes_start_def update_conv' Let_def
          split: option.splits if_splits prod.splits)
  then show ?thesis
    by (simp add: getMailboxes_def k Let_def)
qed

text \<open>
  On an empty registry the first lookup starts fetch 0; the second, for the same two
  accounts in the other order and 7 ms later, is handed promise 0 and fetches nothing.
\<close>

theorem getMailboxes_shares_in_flight_request_witness:
  "set (map fst [(''b'', ()), (''a'', ())]) = set (map fst [(''a'', ()), (''b'', ())]) \<and>
   distinct (map fst [(''b'', ()), (''a'', ())]) \<and>
   distinct (map fst [(''a'', ()), (''b'', ())]) \<and>
   getMailboxes [(''b'', ()), (''a'', ())] 0 empty_registry =
     (Awaits 0, \<lparr>cache = [], inFlightRequests = [(''a,b'', 0)], fetchLog = [[''b'', ''a'']]\<rparr>) \<and>
   getMailboxes [(''a'', ()), (''b'', ())] 7
       \<lparr>cache = [], inFlightRequests = [(''a,b'', 0)], fetchLog = [[''b'', ''a'']]\<rparr> =
     (Awaits 0, \<lparr>cache = [], inFlightRequests = [(''a,b'', 0)], fetchLog = [[''b'', ''a'']]\<rparr>)"
proof -
  have 1: "set (map fst [(''b'', ()), (''a'', ())]) = set (map fst [(''a'', ()), (''b'', ())])"
    by auto
  have 2: "distinct (map fst [(''b'', ()), (''a'', ())])" by simp
  have 3: "distinct (map fst [(''a'', ()), (''b'', ())])" by simp
  have 4: "getMailboxes [(''b'', ()), (''a'', ())] 0 empty_registry =
     (Awaits 0, \<lparr>cache = [], inFlightRequests = [(''a,b'', 0)], fetchLog = [[''b'', ''a'']]\<rparr>)"
    by (simp add: getMailboxes_def cacheKey_example fetchMailboxes_start_def empty_registry_def
          Let_def)
  have 5: "getMailboxes [(''a'', ()), (''b'', ())] 7
       \<lparr>cache = [], inFlightRequests = [(''a,b'', 0)], fetchLog = [[''b'', ''a'']]\<rparr> =
     (Awaits 0, \<lparr>cache = [], inFlightRequests = [(''a,b'', 0)], fetchLog = [[''b'', ''a'']]\<rparr>)"
    using getMailboxes_shares_in_flight_request [OF 1 2 3 4, of 7] by (rule conjunct1)
  from 1 2 3 4 5 show ?thesis by (intro conjI)
qed

section \<open>Properties of the authorization listener\<close>

text \<open>
  C9. While an authorization session is active (\<open>this.server\<close> is set), a call of
  \<open>startForMcpTool\<close>, for any account and whatever the surroundings would answer,
  returns at once the failure with the already-running message and leaves the state of
  the server object, with its listener and its timeout, as it was.
\<close>

theorem startForMcpTool_already_running:
  "server s \<noteq> None \<Longrightarrow>
     startForMcpTool account env s =
       (\<lparr>success = False, authUrl = None, callbackUrl = None,
         error = Some already_running_message\<rparr>, s)"
  by (simp add: startForMcpTool_def)

theorem startForMcpTool_already_running_witness:
  "server active_session \<noteq> None \<and>
   startForMcpTool ''home'' example_env active_session =
     (\<lparr>success = False, authUrl = None, callbackUrl = None,
       error = Some already_running_message\<rparr>, active_session)"
proof -
  have a: "server active_session \<noteq> None"
    by (simp add: active_session_def)
  from a startForMcpTool_already_running [OF a, of "''home''" example_env]
  show ?thesis by (intro conjI)
qed

section \<open>Properties of the write queue\<close>

lemma never_rejects_resolve: "never_rejects (resolve ())"
  by (simp add: never_rejects_def resolve_def)

lemma enqueue_pending:
  "never_rejects q \<Longrightarrow> fst (enqueueTokenWrite operation q) = then_p q (\<lambda>_. operation)"
  by (rule ext)
     (auto simp: enqueueTokenWrite_def then_p_def catch_p_def resolve_def never_rejects_def
        split: outcome.splits)

lemma enqueue_queue:
  "never_rejects q \<Longrightarrow>
     snd (enqueueTokenWrite operation q) = then_p q (\<lambda>_. run_in_order [operation])"
  by (rule ext)
     (auto simp: enqueueTokenWrite_def then_p_def catch_p_def resolve_def reject_def
        never_rejects_def split: outcome.splits)

lemma enqueue_never_rejects:
  "never_rejects (snd (enqueueTokenWrite operation q))"
  by (auto simp: enqueueTokenWrite_def then_p_def catch_p_def resolve_def reject_def
        never_rejects_def split: outcome.splits)

lemma then_p_assoc: "then_p (then_p p f) g = then_p p (\<lambda>v. then_p (f v) g)"
  by (rule ext) (simp add: then_p_def split: outcome.splits)

lemma then_p_resolve: "then_p (resolve ()) (\<lambda>_. p) = p"
  by (rule ext) (simp add: then_p_def resolve_def)

lemma run_in_order_Cons:
  "run_in_order (operation # rest) = then_p (run_in_order [operation]) (\<lambda>_. run_in_order rest)"
  by (rule ext) (simp add: then_p_def resolve_def split: outcome.splits)

lemma enqueue_all_from:
  "never_rejects q \<Longrightarrow>
     snd (enqueue_all ops q) = then_p q (\<lambda>_. run_in_order ops) \<and>
     length (fst (enqueue_all ops q)) = length ops \<and>
     (\<forall>k < length ops.
        fst (enqueue_all ops q) ! k =
          then_p q (\<lambda>_. then_p (run_in_order (take k ops)) (\<lambda>_. ops ! k)))"
proof (induction ops arbitrary: q)
  case Nil
  then show ?case
    by (auto simp: then_p_def resolve_def never_rejects_def fun_eq_iff split: outcome.splits)
next
  case (Cons x xs)
  let ?q' = "snd (enqueueTokenWrite x q)"
  have nr: "never_rejects ?q'" by (rule enqueue_never_rejects)
  note IH = Cons.IH [OF nr]
  have q': "?q' = then_p q (\<lambda>_. run_in_order [x])"
    using Cons.prems by (rule enqueue_queue)
  have 1: "snd (enqueue_all (x # xs) q) = then_p q (\<lambda>_. run_in_order (x # xs))"
    using IH q' run_in_order_Cons [of x xs] by (simp add: then_p_assoc)
  have 2: "length (fst (enqueue_all (x # xs) q)) = length (x # xs)"
    using IH by simp
  have 3: "fst (enqueue_all (x # xs) q) ! k =
          then_p q (\<lambda>_. then_p (run_in_order (take k (x # xs))) (\<lambda>_. (x # xs) ! k))"
    if "k < length (x # xs)" for k
  proof (cases k)
    case 0
    then show ?thesis
      using enqueue_pending [OF Cons.prems, of x] by (simp add: then_p_resolve)
  next
    case (Suc j)
    with that have j: "j < length xs" by simp
    have "fst (enqueue_all (x # xs) q) ! k = fst (enqueue_all xs ?q') ! j"
      using Suc by simp
    also have "\<dots> = then_p ?q' (\<lambda>_. then_p (run_in_order (take j xs)) (\<lambda>_. xs ! j))"
      using IH j by blast
    also have "\<dots> = then_p q (\<lambda>_. then_p (run_in_order [x])
                  (\<lambda>_. then_p (run_in_order (take j xs)) (\<lambda>_. xs ! j)))"
      by (simp add: q' then_p_assoc)
    also have "\<dots> = then_p q (\<lambda>_. then_p (run_in_order (x # take j xs)) (\<lambda>_. xs ! j))"
      using run_in_order_Cons [of x "take j xs"] by (simp add: then_p_assoc)
    finally show ?thesis using Suc by simp
  qed
  from 1 2 3 show ?case by blast
qed

text \<open>
  C2. Any sequence of operations enqueued through \<open>enqueueTokenWrite\<close> on a fresh queue
  (\<open>Promise.resolve()\<close>): the promise handed back for the \<open>k\<close>-th request is "run the
  first \<open>k\<close> operations in order, each to its end, then run operation \<open>k\<close>", so an
  operation starts only in the state that all operations queued before it have left
  when they had settled, it sees their writes, and no two overlap. The queue itself
  is "run all of them in order", where a rejected operation is followed by the next one
  exactly as a fulfilled one is (\<open>run_in_order\<close>).
\<close>

theorem write_queue_runs_in_order:
  "snd (enqueue_all ops (resolve ())) = run_in_order ops \<and>
   length (fst (enqueue_all ops (resolve ()))) = length ops \<and>
   (\<forall>k < length ops.
      fst (enqueue_all ops (resolve ())) ! k =
        then_p (run_in_order (take k ops)) (\<lambda>_. ops ! k))"
  using enqueue_all_from [OF never_rejects_resolve, of ops]
  by (simp add: then_p_resolve)

text \<open>
  With no token file, an unlink is enqueued and then a write: the unlink is rejected
  (\<open>ENOENT\<close>), the write runs after it all the same and its caller sees it fulfilled; the
  queue ends fulfilled with the file written.
\<close>

theorem write_queue_runs_in_order_witness:
  "(1::nat) < length [unlinkTokenFile, writeTokenFile [(''work'', JObj [])]] \<and>
   (fst (enqueue_all [unlinkTokenFile, writeTokenFile [(''work'', JObj [])]] (resolve ())) ! 0)
       no_store =
     Rejected (SysError ''ENOENT'') no_store \<and>
   (fst (enqueue_all [unlinkTokenFile, writeTokenFile [(''work'', JObj [])]] (resolve ())) ! 1)
       no_store =
     Fulfilled () (no_store\<lparr>tokenFile := Parsed [(''work'', JObj [])],
                            fsLog := [WriteFile [(''work'', JObj [])]]\<rparr>) \<and>
   snd (enqueue_all [unlinkTokenFile, writeTokenFile [(''work'', JObj [])]] (resolve ()))
       no_store =
     Fulfilled () (no_store\<lparr>tokenFile := Parsed [(''work'', JObj [])],
                            fsLog := [WriteFile [(''work'', JObj [])]]\<rparr>)"
proof -
  let ?ops = "[unlinkTokenFile, writeTokenFile [(''work'', JObj [])]]"
  note order = write_queue_runs_in_order [of ?ops]
  have len: "(1::nat) < length ?ops" "(0::nat) < length ?ops" by simp_all
  have zero: "fst (enqueue_all ?ops (resolve ())) ! 0 =
      then_p (run_in_order (take 0 ?ops)) (\<lambda>_. ?ops ! 0)"
    using order len by blast
  have one: "fst (enqueue_all ?ops (resolve ())) ! 1 =
      then_p (run_in_order (take 1 ?ops)) (\<lambda>_. ?ops ! 1)"
    using order len by blast
  have all: "snd (enqueue_all ?ops (resolve ())) = run_in_order ?ops"
    using order by blast
  show ?thesis
    unfolding zero one all
    by (simp add: then_p_def resolve_def unlinkTokenFile_def writeTokenFile_def no_store_def
          del: enqueue_all.simps)
qed

section \<open>Properties of the token manager\<close>

lemma enqueue_after_settled:
  "writeQueue s0 = Fulfilled () s \<Longrightarrow>
     fst (enqueueTokenWrite operation writeQueue) s0 = operation s"
  by (simp add: enqueueTokenWrite_def then_p_def catch_p_def)

lemma enqueue_on_own_chain: "fst (enqueueTokenWrite operation own_chain) s = Pending s"
  by (simp add: enqueueTokenWrite_def then_p_def catch_p_def own_chain_def)

lemma load_absent:
  "tokenFile s = Absent \<Longrightarrow> loadMultiAccountTokens q s = Fulfilled [] s"
  by (simp add: loadMultiAccountTokens_def catch_p_def then_p_def readTokenFile_def resolve_def)

lemma load_unparseable:
  "tokenFile s = Unparseable \<Longrightarrow> loadMultiAccountTokens q s = Rejected SyntaxError s"
  by (simp add: loadMultiAccountTokens_def catch_p_def then_p_def readTokenFile_def reject_def)

lemma load_unreadable:
  "tokenFile s = Unreadable code \<Longrightarrow>
     loadMultiAccountTokens q s =
       (if code = ''ENOENT'' then Fulfilled [] s else Rejected (SysError code) s)"
  by (simp add: loadMultiAccountTokens_def catch_p_def then_p_def readTokenFile_def reject_def
        resolve_def)

lemma load_current_format:
  "tokenFile s = Parsed parsed \<Longrightarrow> \<not> old_format parsed \<Longrightarrow>
     loadMultiAccountTokens q s = Fulfilled parsed s"
  by (simp add: loadMultiAccountTokens_def catch_p_def then_p_def readTokenFile_def resolve_def)

text \<open>
  Inside a queued operation the conversion of an old-format file cannot finish: the save
  it awaits is queued behind the operation itself.
\<close>

lemma load_old_format_in_operation:
  "tokenFile s = Parsed parsed \<Longrightarrow> old_format parsed \<Longrightarrow>
     loadMultiAccountTokens own_chain s = Pending s"
  by (simp add: loadMultiAccountTokens_def catch_p_def then_p_def readTokenFile_def
        saveMultiAccountTokens_def enqueue_on_own_chain)

lemma wrapped_not_old_format: "\<not> old_format [(''normal'', v)]"
  by (simp add: old_format_def or_js_def)

text \<open>
  A load that is not made from inside a queued operation: a token file in the old
  single-account format (a top-level \<open>access_token\<close> or \<open>refresh_token\<close> that holds a
  token, which is the test the loader makes), loaded while the pending writes of the queue
  settle. The load returns the mapping with the one entry \<open>normal\<close> holding the old
  content, and in the state it returns in, the file already holds that mapping (one
  write, logged). A load from that state, with any queue, returns the same mapping and
  leaves the state, write log included, untouched.
\<close>

lemma load_converts_old_format_once:
  assumes tf: "tokenFile s0 = Parsed parsed"
    and old: "old_format parsed"
    and queue: "writeQueue s0 = Fulfilled () s"
  shows "loadMultiAccountTokens writeQueue s0 =
           Fulfilled [(''normal'', JObj parsed)]
             (s\<lparr>tokenFile := Parsed [(''normal'', JObj parsed)],
                fsLog := fsLog s @ [WriteFile [(''normal'', JObj parsed)]]\<rparr>) \<and>
         (\<forall>q. loadMultiAccountTokens q
                (s\<lparr>tokenFile := Parsed [(''normal'', JObj parsed)],
                   fsLog := fsLog s @ [WriteFile [(''normal'', JObj parsed)]]\<rparr>) =
              Fulfilled [(''normal'', JObj parsed)]
                (s\<lparr>tokenFile := Parsed [(''normal'', JObj parsed)],
                   fsLog := fsLog s @ [WriteFile [(''normal'', JObj parsed)]]\<rparr>))"
proof -
  have "saveMultiAccountTokens writeQueue [(''normal'', JObj parsed)] s0 =
          writeTokenFile [(''normal'', JObj parsed)] s"
    unfolding saveMultiAccountTokens_def using queue by (rule enqueue_after_settled)
  then have first: "loadMultiAccountTokens writeQueue s0 =
           Fulfilled [(''normal'', JObj parsed)]
             (s\<lparr>tokenFile := Parsed [(''normal'', JObj parsed)],
                fsLog := fsLog s @ [WriteFile [(''normal'', JObj parsed)]]\<rparr>)"
    using tf old
    by (simp add: loadMultiAccountTokens_def catch_p_def then_p_def readTokenFile_def
          resolve_def writeTokenFile_def Let_def)
  have again: "loadMultiAccountTokens q
                (s\<lparr>tokenFile := Parsed [(''normal'', JObj parsed)],
                   fsLog := fsLog s @ [WriteFile [(''normal'', JObj parsed)]]\<rparr>) =
              Fulfilled [(''normal'', JObj parsed)]
                (s\<lparr>tokenFile := Parsed [(''normal'', JObj parsed)],
                   fsLog := fsLog s @ [WriteFile [(''normal'', JObj parsed)]]\<rparr>)" for q
    by (rule load_current_format) (simp_all add: wrapped_not_old_format)
  from first again show ?thesis by blast
qed

text \<open>
  C3, the code at a token file in the old single-account format when the load is made by
  a queued operation, as \<open>saveTokens\<close>, \<open>removeAccount\<close>, \<open>clearTokens\<close> and the
  refresh listener make it (the raw loader, which the source documents as the one for
  read-modify-write, is used by \<open>listAccounts\<close> only). The load enqueues the save of the
  converted mapping behind the operation that awaits it: it never returns, nothing is
  written, and the file keeps the old format. So on a fresh manager \<open>saveTokens\<close>
  never settles.
\<close>

theorem old_format_load_in_queued_operation_never_returns:
  "tokenFile old_format_store =
     Parsed [(''access_token'', JStr ''a1''), (''refresh_token'', JStr ''r1'')] \<and>
   old_format [(''access_token'', JStr ''a1''), (''refresh_token'', JStr ''r1'')] \<and>
   loadMultiAccountTokens own_chain old_format_store = Pending old_format_store \<and>
   saveTokens [(''access_token'', JStr ''a2'')] None (resolve ()) old_format_store =
     Pending old_format_store"
proof -
  have tf: "tokenFile old_format_store =
     Parsed [(''access_token'', JStr ''a1''), (''refresh_token'', JStr ''r1'')]"
    by (simp add: old_format_store_def)
  have old: "old_format [(''access_token'', JStr ''a1''), (''refresh_token'', JStr ''r1'')]"
    by (simp add: old_format_def or_js_def)
  note hang = load_old_format_in_operation [OF tf old]
  have save: "saveTokens [(''access_token'', JStr ''a2'')] None (resolve ()) old_format_store =
     Pending old_format_store"
    by (simp add: saveTokens_def saveTokens_operation_def enqueueTokenWrite_def then_p_def
          catch_p_def resolve_def hang)
  from tf old hang save show ?thesis by (intro conjI)
qed

text \<open>
  What \<open>removeAccount\<close> does on a store in the multi-account format (a file the loader
  does not take for the old format) or with no token file, once the pending writes of
  the queue have settled; the identifier is compared in lower case, and the test for the
  account is the truthiness of \<open>multiAccountTokens[normalizedId]\<close>.
\<close>

lemma removeAccount_effect:
  assumes queue: "writeQueue s0 = Fulfilled () s"
  shows "(tokenFile s = Parsed multiAccountTokens \<and> \<not> old_format multiAccountTokens \<longrightarrow>
            removeAccount acct writeQueue s0 =
              (if \<not> truthy_member multiAccountTokens (toLowerCase acct)
               then Rejected (Error (account_missing_message (toLowerCase acct))) s
               else if filter (\<lambda>(k, v). k \<noteq> toLowerCase acct) multiAccountTokens = []
               then Fulfilled ()
                      (s\<lparr>tokenFile := Absent, fsLog := fsLog s @ [Unlink],
                         accounts := AList.delete (toLowerCase acct) (accounts s)\<rparr>)
               else Fulfilled ()
                      (s\<lparr>tokenFile :=
                           Parsed (filter (\<lambda>(k, v). k \<noteq> toLowerCase acct) multiAccountTokens),
                         fsLog := fsLog s @
                           [WriteFile
                              (filter (\<lambda>(k, v). k \<noteq> toLowerCase acct) multiAccountTokens)],
                         accounts := AList.delete (toLowerCase acct) (accounts s)\<rparr>))) \<and>
         (tokenFile s = Absent \<longrightarrow>
            removeAccount acct writeQueue s0 =
              (if \<not> truthy_member [] (toLowerCase acct)
               then Rejected (Error (account_missing_message (toLowerCase acct))) s
               else Rejected (SysError ''ENOENT'') s))"
proof -
  have del: "AList.delete n multiAccountTokens = filter (\<lambda>(k, v). k \<noteq> n) multiAccountTokens"
    for n
    by (induction multiAccountTokens) auto
  have run: "removeAccount acct writeQueue s0 = removeAccount_operation (toLowerCase acct) s"
    unfolding removeAccount_def Let_def using queue by (rule enqueue_after_settled)
  show ?thesis
    unfolding run
    by (simp add: removeAccount_operation_def then_p_def load_current_format load_absent
          reject_def del unlinkTokenFile_def writeTokenFile_def Let_def)
qed

text \<open>
  C4, the code at an identifier that is not in the store but names a member of
  \<open>Object.prototype\<close>. The identifier \<open>constructor\<close> passes validation and the store of
  two accounts has no record for it, yet \<open>multiAccountTokens['constructor']\<close> is the
  inherited function, which is truthy: \<open>removeAccount\<close> does not fail. It is fulfilled,
  after rewriting the file with both accounts as they were.
\<close>

theorem removeAccount_of_inherited_name_succeeds:
  "validateAccountId ''constructor'' = Inr ''constructor'' \<and>
   map_of [(''work'', JObj [(''access_token'', JStr ''a1'')]),
           (''home'', JObj [(''access_token'', JStr ''a2'')])] ''constructor'' = None \<and>
   removeAccount ''constructor'' (resolve ()) two_account_store =
     Fulfilled ()
       (two_account_store
          \<lparr>fsLog := [WriteFile [(''work'', JObj [(''access_token'', JStr ''a1'')]),
                               (''home'', JObj [(''access_token'', JStr ''a2'')])]]\<rparr>)"
proof -
  have v: "validateAccountId ''constructor'' = Inr ''constructor''"
    by (simp add: validateAccountId_def RESERVED_NAMES_def matches_id_regex_def id_chars_def)
  have m: "map_of [(''work'', JObj [(''access_token'', JStr ''a1'')]),
           (''home'', JObj [(''access_token'', JStr ''a2'')])] ''constructor'' = None"
    by simp
  have low: "toLowerCase ''constructor'' = ''constructor''"
    by (simp add: toLowerCase_def lower_char_def)
  have r: "removeAccount ''constructor'' (resolve ()) two_account_store =
     Fulfilled ()
       (two_account_store
          \<lparr>fsLog := [WriteFile [(''work'', JObj [(''access_token'', JStr ''a1'')]),
                               (''home'', JObj [(''access_token'', JStr ''a2'')])]]\<rparr>)"
    by (simp add: removeAccount_def low removeAccount_operation_def enqueueTokenWrite_def
          then_p_def catch_p_def resolve_def loadMultiAccountTokens_def readTokenFile_def
          two_account_store_def old_format_def or_js_def truthy_member_def
          Object_prototype_names_def writeTokenFile_def Let_def)
  from v m r show ?thesis by (intro conjI)
qed

lemma state_of_swallow: "state_of (catch_p p (\<lambda>error. resolve ()) s) = state_of (p s)"
  by (simp add: catch_p_def resolve_def split: outcome.splits)

lemma listener_operation_keeps:
  assumes new: "\<not> truthy (map_of newTokens ''refresh_token'')"
    and old: "truthy (stored_refresh_token (tokenFile s) acct)"
  shows "stored_refresh_token
           (tokenFile (state_of (tokens_listener_operation acct newTokens s))) acct =
         stored_refresh_token (tokenFile s) acct"
proof -
  from old obtain m where m: "tokenFile s = Parsed m"
    by (cases "tokenFile s") (simp_all add: stored_refresh_token_def)
  from old m obtain tokens where t: "map_of m acct = Some tokens"
    by (cases "map_of m acct") (simp_all add: stored_refresh_token_def)
  from old m t obtain r where r: "tokens = JObj r"
    by (cases tokens) (simp_all add: stored_refresh_token_def)
  from old m t r obtain v where v: "map_of r ''refresh_token'' = Some v" "truthy (Some v)"
    by (cases "map_of r ''refresh_token''") (simp_all add: stored_refresh_token_def)
  show ?thesis
  proof (cases "old_format m")
    case True
    then show ?thesis
      using m by (simp add: tokens_listener_operation_def then_p_def load_old_format_in_operation)
  next
    case False
    then show ?thesis
      using m t r v new
      by (simp add: tokens_listener_operation_def then_p_def load_current_format or_js_def
            set_prop_def writeTokenFile_def stored_refresh_token_def update_conv' Let_def)
  qed
qed

text \<open>
  C1 as stated, for the listener and for \<open>saveTokens\<close>, fails for \<open>saveTokens\<close>: the
  store holds the refresh token \<open>r1\<close> for the account \<open>normal\<close>, the tokens saved have
  no refresh token, and afterwards the record of \<open>normal\<close> is exactly the tokens saved:
  the stored refresh token is gone.
\<close>

theorem saveTokens_replaces_record:
  "stored_refresh_token (tokenFile one_account_store) ''normal'' = Some (JStr ''r1'') \<and>
   map_of [(''access_token'', JStr ''a2'')] ''refresh_token'' = None \<and>
   saveTokens [(''access_token'', JStr ''a2'')] None (resolve ()) one_account_store =
     Fulfilled ()
       (one_account_store
          \<lparr>tokenFile := Parsed [(''normal'', JObj [(''access_token'', JStr ''a2'')])],
           fsLog := [WriteFile [(''normal'', JObj [(''access_token'', JStr ''a2'')])]],
           credentials := JObj [(''access_token'', JStr ''a2'')]\<rparr>) \<and>
   stored_refresh_token
     (tokenFile (state_of
        (saveTokens [(''access_token'', JStr ''a2'')] None (resolve ()) one_account_store)))
     ''normal'' = None"
  by (simp add: stored_refresh_token_def one_account_store_def saveTokens_def
        saveTokens_operation_def enqueueTokenWrite_def then_p_def catch_p_def resolve_def
        reject_def loadMultiAccountTokens_def readTokenFile_def old_format_def or_js_def
        writeTokenFile_def assign_all_def Let_def)

text \<open>
  C1, amended to the token-refresh listener: for every account whose stored record holds
  a refresh token, and every token update without one (the property is missing, null or
  empty), once the listener has handled the update the token file holds the same refresh
  token for that account as before. The state before is the one the pending writes of the
  queue leave; the statement covers every outcome of the listener's write, also the
  cases in which nothing is written.
\<close>

theorem listener_keeps_refresh_token:
  assumes new: "\<not> truthy (map_of newTokens ''refresh_token'')"
    and old: "truthy (stored_refresh_token (tokenFile (state_of (writeQueue s0))) acct)"
  shows "stored_refresh_token
           (tokenFile (state_of (tokens_listener acct newTokens writeQueue s0))) acct =
         stored_refresh_token (tokenFile (state_of (writeQueue s0))) acct"
proof -
  have "state_of (tokens_listener acct newTokens writeQueue s0) =
          (case writeQueue s0 of
             Pending s \<Rightarrow> s
           | Fulfilled v s \<Rightarrow> state_of (tokens_listener_operation acct newTokens s)
           | Rejected e s \<Rightarrow> state_of (tokens_listener_operation acct newTokens s))"
    unfolding tokens_listener_def state_of_swallow
    by (simp add: enqueueTokenWrite_def then_p_def catch_p_def resolve_def split: outcome.splits)
  then show ?thesis
    using listener_operation_keeps [OF new] old
    by (cases "writeQueue s0") simp_all
qed

text \<open>
  A refresh that brings a new access token and a null refresh token: the access token is
  replaced and the refresh token \<open>r1\<close> stays.
\<close>

theorem listener_keeps_refresh_token_witness:
  "\<not> truthy (map_of [(''access_token'', JStr ''a2''), (''refresh_token'', JNull)]
                ''refresh_token'') \<and>
   truthy (stored_refresh_token (tokenFile (state_of (resolve () one_account_store))) ''normal'') \<and>
   stored_refresh_token
     (tokenFile (state_of
        (tokens_listener ''normal'' [(''access_token'', JStr ''a2''), (''refresh_token'', JNull)]
           (resolve ()) one_account_store)))
     ''normal'' = Some (JStr ''r1'')"
proof -
  have 1: "\<not> truthy (map_of [(''access_token'', JStr ''a2''), (''refresh_token'', JNull)]
                ''refresh_token'')"
    by simp
  have 0: "stored_refresh_token (tokenFile (state_of (resolve () one_account_store))) ''normal'' =
             Some (JStr ''r1'')"
    by (simp add: resolve_def one_account_store_def stored_refresh_token_def)
  have 2: "truthy (stored_refresh_token (tokenFile (state_of (resolve () one_account_store)))
             ''normal'')"
    unfolding 0 by simp
  have 3: "stored_refresh_token
     (tokenFile (state_of
        (tokens_listener ''normal'' [(''access_token'', JStr ''a2''), (''refresh_token'', JNull)]
           (resolve ()) one_account_store)))
     ''normal'' = Some (JStr ''r1'')"
    using listener_keeps_refresh_token
        [of "[(''access_token'', JStr ''a2''), (''refresh_token'', JNull)]" "resolve ()"
           one_account_store "''normal''", OF 1 2] 0
    by simp
  from 1 2 3 show ?thesis by (intro conjI)
qed

text \<open>
  C5, the code at a token file that is not JSON: \<open>JSON.parse\<close> throws a
  \<open>SyntaxError\<close>, which has no \<open>code\<close> property, so the guard of the unlink in
  \<open>loadSavedTokens\<close> is false: the answer is \<open>false\<close> and the state is untouched. The
  file stays where it is, and a load of it is rejected with the same error again.
\<close>

theorem loadSavedTokens_keeps_unparseable_file:
  "tokenFile s = Unparseable \<Longrightarrow>
     loadSavedTokens q s = Fulfilled False s \<and>
     loadMultiAccountTokens q s = Rejected SyntaxError s"
  by (simp add: loadSavedTokens_def catch_p_def then_p_def load_unparseable resolve_def)

theorem loadSavedTokens_keeps_unparseable_file_witness:
  "tokenFile corrupt_store = Unparseable \<and>
   loadSavedTokens (resolve ()) corrupt_store = Fulfilled False corrupt_store \<and>
   loadMultiAccountTokens (resolve ()) corrupt_store = Rejected SyntaxError corrupt_store"
proof -
  have 1: "tokenFile corrupt_store = Unparseable"
    by (simp add: corrupt_store_def)
  from 1 loadSavedTokens_keeps_unparseable_file [OF 1, of "resolve ()"]
  show ?thesis by simp
qed

text \<open>
  The unlink is reached by a system error other than \<open>ENOENT\<close> (a file that exists
  and cannot be read), not by a parse error.
\<close>

lemma loadSavedTokens_unlinks_unreadable_file:
  "tokenFile s = Unreadable code \<Longrightarrow> code \<noteq> ''ENOENT'' \<Longrightarrow>
     loadSavedTokens q s =
       Fulfilled False (s\<lparr>tokenFile := Absent, fsLog := fsLog s @ [Unlink]\<rparr>)"
  by (simp add: loadSavedTokens_def catch_p_def then_p_def load_unreadable resolve_def
        unlinkTokenFile_def)

end
